theory Spec2Isabelle
  imports Complex_Main
begin

section \<open>JavaScript numbers\<close>

text \<open>
  Every number of \<^verbatim>\<open>src/main.js\<close> is an ECMAScript Number, an IEEE 754 binary64 value, and
  \<^verbatim>\<open>+\<close>, \<^verbatim>\<open>-\<close>, \<^verbatim>\<open>*\<close>, \<^verbatim>\<open>/\<close> round their exact result to the nearest representable
  value, ties to even. A finite Number is modelled by the rational it denotes, the two
  infinities and NaN are constructors of their own. The two zeros \<open>+0\<close> and \<open>-0\<close> are
  identified: \<^verbatim>\<open>===\<close> does not tell them apart and the program never divides by a variable.
  The type also holds rationals that no binary64 value denotes, such as \<open>Num (1 / 3)\<close>; no
  operation returns one, since every result is rounded, and a statement about all values
  of the type covers all Numbers.
\<close>

datatype number = Num rat | PosInfinity | NegInfinity | NaN

text \<open>The number of binary digits of a natural number.\<close>

fun bitlen :: "nat \<Rightarrow> nat" where
  "bitlen n = (if n = 0 then 0 else Suc (bitlen (n div 2)))"

text \<open>\<open>ilog2 a\<close> is the binary exponent of a positive rational: \<open>2 ^ ilog2 a \<le> a < 2 ^ (ilog2 a + 1)\<close>.\<close>

definition ilog2 :: "rat \<Rightarrow> int" where
  "ilog2 a = (let (p, q) = quotient_of a;
                  c = int (bitlen (nat p)) - int (bitlen (nat q))
              in if 2 powi c \<le> a then c else c - 1)"

definition roundTiesToEven :: "rat \<Rightarrow> int" where
  "roundTiesToEven x = (let f = \<lfloor>x\<rfloor>; d = x - of_int f
     in if d < 1 / 2 then f else if 1 / 2 < d then f + 1 else if even f then f else f + 1)"

text \<open>
  Rounding of an exact result to binary64: 53 significant bits, exponents from \<open>-1022\<close>
  (below that the spacing stays \<open>2 ^ -1074\<close>, the subnormal range) to \<open>1023\<close> (a rounded
  magnitude of \<open>2 ^ 1024\<close> or more is an infinity).
\<close>

definition fl :: "rat \<Rightarrow> number" where
  "fl x = (if x = 0 then Num 0 else
     let a = \<bar>x\<bar>;
         e = max (ilog2 a) (- 1022);
         ulp = 2 powi (e - 52);
         r = of_int (roundTiesToEven (a / ulp)) * ulp
     in if 2 powi 1024 \<le> r then (if 0 < x then PosInfinity else NegInfinity)
        else Num (if 0 < x then r else - r))"

text \<open>A decimal literal of the source text denotes the Number nearest to it.\<close>

definition lit :: "rat \<Rightarrow> number" where
  "lit q = fl q"

fun jneg :: "number \<Rightarrow> number" where
  "jneg (Num a) = Num (- a)"
| "jneg PosInfinity = NegInfinity"
| "jneg NegInfinity = PosInfinity"
| "jneg NaN = NaN"

fun jadd :: "number \<Rightarrow> number \<Rightarrow> number" where
  "jadd (Num a) (Num b) = fl (a + b)"
| "jadd NaN _ = NaN"
| "jadd _ NaN = NaN"
| "jadd PosInfinity NegInfinity = NaN"
| "jadd NegInfinity PosInfinity = NaN"
| "jadd PosInfinity _ = PosInfinity"
| "jadd NegInfinity _ = NegInfinity"
| "jadd _ PosInfinity = PosInfinity"
| "jadd _ NegInfinity = NegInfinity"

definition jsub :: "number \<Rightarrow> number \<Rightarrow> number" where
  "jsub a b = jadd a (jneg b)"

fun jmul :: "number \<Rightarrow> number \<Rightarrow> number" where
  "jmul (Num a) (Num b) = fl (a * b)"
| "jmul NaN _ = NaN"
| "jmul _ NaN = NaN"
| "jmul (Num a) PosInfinity = (if a = 0 then NaN else if 0 < a then PosInfinity else NegInfinity)"
| "jmul (Num a) NegInfinity = (if a = 0 then NaN else if 0 < a then NegInfinity else PosInfinity)"
| "jmul PosInfinity (Num b) = (if b = 0 then NaN else if 0 < b then PosInfinity else NegInfinity)"
| "jmul NegInfinity (Num b) = (if b = 0 then NaN else if 0 < b then NegInfinity else PosInfinity)"
| "jmul PosInfinity PosInfinity = PosInfinity"
| "jmul NegInfinity NegInfinity = PosInfinity"
| "jmul PosInfinity NegInfinity = NegInfinity"
| "jmul NegInfinity PosInfinity = NegInfinity"

fun jdiv :: "number \<Rightarrow> number \<Rightarrow> number" where
  "jdiv (Num a) (Num b) =
     (if b = 0 then (if a = 0 then NaN else if 0 < a then PosInfinity else NegInfinity)
      else fl (a / b))"
| "jdiv NaN _ = NaN"
| "jdiv _ NaN = NaN"
| "jdiv (Num a) PosInfinity = Num 0"
| "jdiv (Num a) NegInfinity = Num 0"
| "jdiv PosInfinity (Num b) = (if 0 \<le> b then PosInfinity else NegInfinity)"
| "jdiv NegInfinity (Num b) = (if 0 \<le> b then NegInfinity else PosInfinity)"
| "jdiv PosInfinity PosInfinity = NaN"
| "jdiv PosInfinity NegInfinity = NaN"
| "jdiv NegInfinity PosInfinity = NaN"
| "jdiv NegInfinity NegInfinity = NaN"

text \<open>The comparison \<^verbatim>\<open><=\<close>; every comparison with NaN is false.\<close>

fun jle :: "number \<Rightarrow> number \<Rightarrow> bool" where
  "jle (Num a) (Num b) = (a \<le> b)"
| "jle NaN _ = False"
| "jle _ NaN = False"
| "jle NegInfinity _ = True"
| "jle _ PosInfinity = True"
| "jle (Num a) NegInfinity = False"
| "jle PosInfinity (Num b) = False"
| "jle PosInfinity NegInfinity = False"

text \<open>\<^verbatim>\<open>Math.PI\<close>, the Number nearest to \<open>\<pi>\<close>: \<open>884279719003555 / 2 ^ 48\<close>.\<close>

definition Math_PI :: number where
  "Math_PI = Num (884279719003555 / 281474976710656)"


section \<open>The scene, the settings and the control panel\<close>

text \<open>
  \<^verbatim>\<open>glassMaterial\<close> is one \<^verbatim>\<open>MeshPhysicalMaterial\<close> object. Objects live in a store; a mesh
  holds the address of its material, not a copy.
\<close>

record physical_material =
  transmission :: number
  roughness :: number
  thickness :: number
  ior :: number
  dispersion :: number
  metalness :: number
  clearcoat :: number
  clearcoatRoughness :: number
  envMapIntensity :: number

record mesh =
  material :: nat
  position_y :: number
  rotation_x :: number

text \<open>The object literal \<^verbatim>\<open>settings\<close>.\<close>

record settings =
  shape :: string
  prismRotateX :: number
  prismRotateY :: number
  prismRotateZ :: number
  autoRotate :: bool
  autoRotateSpeed :: number
  biPyramidGap :: number
  showInputBeam :: bool
  inputBeamOpacity :: number
  lightIntensity :: number
  fogDensity :: number
  particlesVisible :: bool

text \<open>
  What the seventeen controllers of the lil-gui panel currently display, one field for each
  controller, named by its label. A controller displays the value its bound property had
  when the controller was created or when its \<^verbatim>\<open>updateDisplay()\<close> last ran; no controller of
  the program is created with \<^verbatim>\<open>listen()\<close>.
\<close>

record panel =
  shown_Type :: string
  shown_BiPyramidGap :: number
  shown_RotateX :: number
  shown_RotateY :: number
  shown_RotateZ :: number
  shown_AutoRotate :: bool
  shown_RotateSpeed :: number
  shown_Transmission :: number
  shown_IOR :: number
  shown_Dispersion :: number
  shown_Thickness :: number
  shown_Roughness :: number
  shown_ShowLightBeam :: bool
  shown_BeamOpacity :: number
  shown_LightIntensity :: number
  shown_FogDensity :: number
  shown_DustParticles :: bool

text \<open>The mutable state of the module: scene objects, module variables, settings, panel.\<close>

record state =
  materials :: "nat \<rightharpoonup> physical_material"
  singlePyramid :: mesh
  upperPyramid :: mesh
  lowerPyramid :: mesh
  singlePyramidGroup_visible :: bool
  biPyramidGroup_visible :: bool
  prismGroup_rotation_x :: number
  prismGroup_rotation_y :: number
  prismGroup_rotation_z :: number
  let_biPyramidGap :: number
  spotLight_intensity :: number
  inputBeam_visible :: bool
  inputBeamMaterial_opacity :: number
  fog_density :: number
  particles_visible :: bool
  particles_rotation_y :: number
  settings :: settings
  gui :: panel
  isDragging :: bool
  previousMousePosition :: "number \<times> number"

text \<open>The address of the object bound to \<^verbatim>\<open>const glassMaterial\<close>.\<close>

definition glassMaterial :: nat where
  "glassMaterial = 0"

text \<open>The material a mesh is drawn with: the object at the address the mesh holds.\<close>

definition material_of :: "state \<Rightarrow> mesh \<Rightarrow> physical_material option" where
  "material_of s m = materials s (material m)"

definition biPyramidHeight :: number where
  "biPyramidHeight = jmul (lit 1.5) (lit 1.3)"

text \<open>\<^verbatim>\<open>c.updateDisplay()\<close> for every controller \<open>c\<close>: each shows its bound property again.\<close>

definition updateDisplay_all :: "state \<Rightarrow> state" where
  "updateDisplay_all s =
     (let st = settings s;
          p = (gui s)\<lparr>
            shown_Type := shape st,
            shown_BiPyramidGap := biPyramidGap st,
            shown_RotateX := prismRotateX st,
            shown_RotateY := prismRotateY st,
            shown_RotateZ := prismRotateZ st,
            shown_AutoRotate := autoRotate st,
            shown_RotateSpeed := autoRotateSpeed st,
            shown_ShowLightBeam := showInputBeam st,
            shown_BeamOpacity := inputBeamOpacity st,
            shown_LightIntensity := lightIntensity st,
            shown_FogDensity := fogDensity st,
            shown_DustParticles := particlesVisible st\<rparr>
      in case materials s glassMaterial of
           None \<Rightarrow> s\<lparr>gui := p\<rparr>
         | Some m \<Rightarrow> s\<lparr>gui := p\<lparr>
            shown_Transmission := transmission m,
            shown_IOR := ior m,
            shown_Dispersion := dispersion m,
            shown_Thickness := thickness m,
            shown_Roughness := roughness m\<rparr>\<rparr>)"

text \<open>The state after the top-level code of the module has run (lines 1 to 310).\<close>

definition init :: state where
  "init =
     (let gap = lit 0.15;
          glass = \<lparr>transmission = lit 1.0, roughness = lit 0.0, thickness = lit 5.0,
                   ior = lit 2.0, dispersion = lit 5.0, metalness = lit 0.0,
                   clearcoat = lit 1.0, clearcoatRoughness = lit 0.0,
                   envMapIntensity = lit 1.0\<rparr>;
          st = \<lparr>shape = ''Bi-Pyramid'',
                prismRotateX = jdiv Math_PI (lit 6),
                prismRotateY = jdiv Math_PI (lit 4),
                prismRotateZ = lit 0,
                autoRotate = True,
                autoRotateSpeed = lit 0.3,
                biPyramidGap = gap,
                showInputBeam = False,
                inputBeamOpacity = lit 0.25,
                lightIntensity = lit 200,
                fogDensity = lit 0.02,
                particlesVisible = True\<rparr>
      in \<lparr>materials = Map.empty(glassMaterial \<mapsto> glass),
          singlePyramid = \<lparr>material = glassMaterial, position_y = lit 0, rotation_x = lit 0\<rparr>,
          upperPyramid = \<lparr>material = glassMaterial,
             position_y = jadd (jdiv biPyramidHeight (lit 2)) (jdiv gap (lit 2)),
             rotation_x = lit 0\<rparr>,
          lowerPyramid = \<lparr>material = glassMaterial,
             position_y = jneg (jadd (jdiv biPyramidHeight (lit 2)) (jdiv gap (lit 2))),
             rotation_x = Math_PI\<rparr>,
          singlePyramidGroup_visible = False,
          biPyramidGroup_visible = True,
          prismGroup_rotation_x = jdiv Math_PI (lit 6),
          prismGroup_rotation_y = jdiv Math_PI (lit 4),
          prismGroup_rotation_z = lit 0,
          let_biPyramidGap = gap,
          spotLight_intensity = lit 200,
          inputBeam_visible = False,
          inputBeamMaterial_opacity = lit 0.25,
          fog_density = lit 0.02,
          particles_visible = True,
          particles_rotation_y = lit 0,
          settings = st,
          gui = \<lparr>shown_Type = shape st,
             shown_BiPyramidGap = biPyramidGap st,
             shown_RotateX = prismRotateX st,
             shown_RotateY = prismRotateY st,
             shown_RotateZ = prismRotateZ st,
             shown_AutoRotate = autoRotate st,
             shown_RotateSpeed = autoRotateSpeed st,
             shown_Transmission = transmission glass,
             shown_IOR = ior glass,
             shown_Dispersion = dispersion glass,
             shown_Thickness = thickness glass,
             shown_Roughness = roughness glass,
             shown_ShowLightBeam = showInputBeam st,
             shown_BeamOpacity = inputBeamOpacity st,
             shown_LightIntensity = lightIntensity st,
             shown_FogDensity = fogDensity st,
             shown_DustParticles = particlesVisible st\<rparr>,
          isDragging = False,
          previousMousePosition = (lit 0, lit 0)\<rparr>)"


section \<open>Scene functions\<close>

definition updateBiPyramidGap :: "number \<Rightarrow> state \<Rightarrow> state" where
  "updateBiPyramidGap gap s =
     s\<lparr>let_biPyramidGap := gap,
       upperPyramid := (upperPyramid s)\<lparr>position_y :=
          jadd (jdiv biPyramidHeight (lit 2)) (jdiv gap (lit 2))\<rparr>,
       lowerPyramid := (lowerPyramid s)\<lparr>position_y :=
          jneg (jadd (jdiv biPyramidHeight (lit 2)) (jdiv gap (lit 2)))\<rparr>\<rparr>"

definition setActiveShape :: "string \<Rightarrow> state \<Rightarrow> state" where
  "setActiveShape shapeName s =
     s\<lparr>singlePyramidGroup_visible := (shapeName = ''Single Pyramid''),
       biPyramidGroup_visible := (shapeName = ''Bi-Pyramid'')\<rparr>"


section \<open>The control panel\<close>

text \<open>
  When the user changes a controller, lil-gui's \<^verbatim>\<open>setValue\<close> stores the new value in the
  bound property, calls the controller's \<^verbatim>\<open>onChange\<close> callback (if it has one) with that
  value, and lets the controller display the value. One function for each controller, in
  the order of lines 252 to 303, named by the bound property.
\<close>

definition change_shape :: "string \<Rightarrow> state \<Rightarrow> state" where
  "change_shape v s =
     (let s1 = s\<lparr>settings := (settings s)\<lparr>shape := v\<rparr>\<rparr>;
          s2 = setActiveShape v s1
      in s2\<lparr>gui := (gui s2)\<lparr>shown_Type := v\<rparr>\<rparr>)"

definition change_biPyramidGap :: "number \<Rightarrow> state \<Rightarrow> state" where
  "change_biPyramidGap v s =
     (let s1 = s\<lparr>settings := (settings s)\<lparr>biPyramidGap := v\<rparr>\<rparr>;
          s2 = updateBiPyramidGap v s1
      in s2\<lparr>gui := (gui s2)\<lparr>shown_BiPyramidGap := v\<rparr>\<rparr>)"

definition change_prismRotateX :: "number \<Rightarrow> state \<Rightarrow> state" where
  "change_prismRotateX v s =
     (let s1 = s\<lparr>settings := (settings s)\<lparr>prismRotateX := v\<rparr>\<rparr>;
          s2 = s1\<lparr>prismGroup_rotation_x := v\<rparr>
      in s2\<lparr>gui := (gui s2)\<lparr>shown_RotateX := v\<rparr>\<rparr>)"

definition change_prismRotateY :: "number \<Rightarrow> state \<Rightarrow> state" where
  "change_prismRotateY v s =
     (let s1 = s\<lparr>settings := (settings s)\<lparr>prismRotateY := v\<rparr>\<rparr>;
          s2 = s1\<lparr>prismGroup_rotation_y := v\<rparr>
      in s2\<lparr>gui := (gui s2)\<lparr>shown_RotateY := v\<rparr>\<rparr>)"

definition change_prismRotateZ :: "number \<Rightarrow> state \<Rightarrow> state" where
  "change_prismRotateZ v s =
     (let s1 = s\<lparr>settings := (settings s)\<lparr>prismRotateZ := v\<rparr>\<rparr>;
          s2 = s1\<lparr>prismGroup_rotation_z := v\<rparr>
      in s2\<lparr>gui := (gui s2)\<lparr>shown_RotateZ := v\<rparr>\<rparr>)"

definition change_autoRotate :: "bool \<Rightarrow> state \<Rightarrow> state" where
  "change_autoRotate v s =
     (let s1 = s\<lparr>settings := (settings s)\<lparr>autoRotate := v\<rparr>\<rparr>
      in s1\<lparr>gui := (gui s1)\<lparr>shown_AutoRotate := v\<rparr>\<rparr>)"

definition change_autoRotateSpeed :: "number \<Rightarrow> state \<Rightarrow> state" where
  "change_autoRotateSpeed v s =
     (let s1 = s\<lparr>settings := (settings s)\<lparr>autoRotateSpeed := v\<rparr>\<rparr>
      in s1\<lparr>gui := (gui s1)\<lparr>shown_RotateSpeed := v\<rparr>\<rparr>)"

definition change_transmission :: "number \<Rightarrow> state \<Rightarrow> state" where
  "change_transmission v s =
     (case materials s glassMaterial of
        None \<Rightarrow> s
      | Some m \<Rightarrow>
          let s1 = s\<lparr>materials := (materials s)(glassMaterial \<mapsto> m\<lparr>transmission := v\<rparr>)\<rparr>
          in s1\<lparr>gui := (gui s1)\<lparr>shown_Transmission := v\<rparr>\<rparr>)"

definition change_ior :: "number \<Rightarrow> state \<Rightarrow> state" where
  "change_ior v s =
     (case materials s glassMaterial of
        None \<Rightarrow> s
      | Some m \<Rightarrow>
          let s1 = s\<lparr>materials := (materials s)(glassMaterial \<mapsto> m\<lparr>ior := v\<rparr>)\<rparr>
          in s1\<lparr>gui := (gui s1)\<lparr>shown_IOR := v\<rparr>\<rparr>)"

definition change_dispersion :: "number \<Rightarrow> state \<Rightarrow> state" where
  "change_dispersion v s =
     (case materials s glassMaterial of
        None \<Rightarrow> s
      | Some m \<Rightarrow>
          let s1 = s\<lparr>materials := (materials s)(glassMaterial \<mapsto> m\<lparr>dispersion := v\<rparr>)\<rparr>
          in s1\<lparr>gui := (gui s1)\<lparr>shown_Dispersion := v\<rparr>\<rparr>)"

definition change_thickness :: "number \<Rightarrow> state \<Rightarrow> state" where
  "change_thickness v s =
     (case materials s glassMaterial of
        None \<Rightarrow> s
      | Some m \<Rightarrow>
          let s1 = s\<lparr>materials := (materials s)(glassMaterial \<mapsto> m\<lparr>thickness := v\<rparr>)\<rparr>
          in s1\<lparr>gui := (gui s1)\<lparr>shown_Thickness := v\<rparr>\<rparr>)"

definition change_roughness :: "number \<Rightarrow> state \<Rightarrow> state" where
  "change_roughness v s =
     (case materials s glassMaterial of
        None \<Rightarrow> s
      | Some m \<Rightarrow>
          let s1 = s\<lparr>materials := (materials s)(glassMaterial \<mapsto> m\<lparr>roughness := v\<rparr>)\<rparr>
          in s1\<lparr>gui := (gui s1)\<lparr>shown_Roughness := v\<rparr>\<rparr>)"

definition change_showInputBeam :: "bool \<Rightarrow> state \<Rightarrow> state" where
  "change_showInputBeam v s =
     (let s1 = s\<lparr>settings := (settings s)\<lparr>showInputBeam := v\<rparr>\<rparr>;
          s2 = s1\<lparr>inputBeam_visible := v\<rparr>
      in s2\<lparr>gui := (gui s2)\<lparr>shown_ShowLightBeam := v\<rparr>\<rparr>)"

definition change_inputBeamOpacity :: "number \<Rightarrow> state \<Rightarrow> state" where
  "change_inputBeamOpacity v s =
     (let s1 = s\<lparr>settings := (settings s)\<lparr>inputBeamOpacity := v\<rparr>\<rparr>;
          s2 = s1\<lparr>inputBeamMaterial_opacity := v\<rparr>
      in s2\<lparr>gui := (gui s2)\<lparr>shown_BeamOpacity := v\<rparr>\<rparr>)"

definition change_lightIntensity :: "number \<Rightarrow> state \<Rightarrow> state" where
  "change_lightIntensity v s =
     (let s1 = s\<lparr>settings := (settings s)\<lparr>lightIntensity := v\<rparr>\<rparr>;
          s2 = s1\<lparr>spotLight_intensity := v\<rparr>
      in s2\<lparr>gui := (gui s2)\<lparr>shown_LightIntensity := v\<rparr>\<rparr>)"

definition change_fogDensity :: "number \<Rightarrow> state \<Rightarrow> state" where
  "change_fogDensity v s =
     (let s1 = s\<lparr>settings := (settings s)\<lparr>fogDensity := v\<rparr>\<rparr>;
          s2 = s1\<lparr>fog_density := v\<rparr>
      in s2\<lparr>gui := (gui s2)\<lparr>shown_FogDensity := v\<rparr>\<rparr>)"

definition change_particlesVisible :: "bool \<Rightarrow> state \<Rightarrow> state" where
  "change_particlesVisible v s =
     (let s1 = s\<lparr>settings := (settings s)\<lparr>particlesVisible := v\<rparr>\<rparr>;
          s2 = s1\<lparr>particles_visible := v\<rparr>
      in s2\<lparr>gui := (gui s2)\<lparr>shown_DustParticles := v\<rparr>\<rparr>)"


section \<open>Mouse drag and the animation loop\<close>

text \<open>The four listeners of lines 312 to 339; the arguments are \<^verbatim>\<open>e.clientX\<close> and \<^verbatim>\<open>e.clientY\<close>.\<close>

definition mousedown :: "number \<Rightarrow> number \<Rightarrow> state \<Rightarrow> state" where
  "mousedown clientX clientY s =
     s\<lparr>isDragging := True, previousMousePosition := (clientX, clientY)\<rparr>"

definition mousemove :: "number \<Rightarrow> number \<Rightarrow> state \<Rightarrow> state" where
  "mousemove clientX clientY s =
     (if \<not> isDragging s then s
      else
        let deltaX = jsub clientX (fst (previousMousePosition s));
            deltaY = jsub clientY (snd (previousMousePosition s));
            s1 = s\<lparr>prismGroup_rotation_y := jadd (prismGroup_rotation_y s) (jmul deltaX (lit 0.005))\<rparr>;
            s2 = s1\<lparr>prismGroup_rotation_x := jadd (prismGroup_rotation_x s1) (jmul deltaY (lit 0.005))\<rparr>;
            s3 = s2\<lparr>settings := (settings s2)\<lparr>prismRotateY := prismGroup_rotation_y s2\<rparr>\<rparr>;
            s4 = s3\<lparr>settings := (settings s3)\<lparr>prismRotateX := prismGroup_rotation_x s3\<rparr>\<rparr>;
            s5 = updateDisplay_all s4
        in s5\<lparr>previousMousePosition := (clientX, clientY)\<rparr>)"

definition mouseup :: "state \<Rightarrow> state" where
  "mouseup s = s\<lparr>isDragging := False\<rparr>"

definition mouseleave :: "state \<Rightarrow> state" where
  "mouseleave s = s\<lparr>isDragging := False\<rparr>"

text \<open>
  One run of \<^verbatim>\<open>animate\<close>, that is one animation frame. \<^verbatim>\<open>requestAnimationFrame(animate)\<close>
  asks the host for the next frame and \<^verbatim>\<open>renderer.render\<close> draws; neither writes the state.
\<close>

definition animate :: "state \<Rightarrow> state" where
  "animate s =
     (let s2 =
        (if autoRotate (settings s) \<and> \<not> isDragging s then
           let s1 = s\<lparr>prismGroup_rotation_y :=
                   jadd (prismGroup_rotation_y s) (jmul (autoRotateSpeed (settings s)) (lit 0.01))\<rparr>
           in s1\<lparr>settings := (settings s1)\<lparr>prismRotateY := prismGroup_rotation_y s1\<rparr>\<rparr>
         else s)
      in s2\<lparr>particles_rotation_y := jadd (particles_rotation_y s2) (lit 0.0001)\<rparr>)"


section \<open>Events\<close>

text \<open>
  The host runs one handler at a time: a pointer event, an animation frame, a resize (which
  writes the camera and the renderer only, not this state), or a change of one controller.
\<close>

datatype event =
    MouseDown number number
  | MouseMove number number
  | MouseUp
  | MouseLeave
  | AnimationFrame
  | Resize
  | ChangeShape string
  | ChangeBiPyramidGap number
  | ChangeRotateX number
  | ChangeRotateY number
  | ChangeRotateZ number
  | ChangeAutoRotate bool
  | ChangeRotateSpeed number
  | ChangeTransmission number
  | ChangeIOR number
  | ChangeDispersion number
  | ChangeThickness number
  | ChangeRoughness number
  | ChangeShowLightBeam bool
  | ChangeBeamOpacity number
  | ChangeLightIntensity number
  | ChangeFogDensity number
  | ChangeDustParticles bool

fun handle :: "event \<Rightarrow> state \<Rightarrow> state" where
  "handle (MouseDown x y) s = mousedown x y s"
| "handle (MouseMove x y) s = mousemove x y s"
| "handle MouseUp s = mouseup s"
| "handle MouseLeave s = mouseleave s"
| "handle AnimationFrame s = animate s"
| "handle Resize s = s"
| "handle (ChangeShape v) s = change_shape v s"
| "handle (ChangeBiPyramidGap v) s = change_biPyramidGap v s"
| "handle (ChangeRotateX v) s = change_prismRotateX v s"
| "handle (ChangeRotateY v) s = change_prismRotateY v s"
| "handle (ChangeRotateZ v) s = change_prismRotateZ v s"
| "handle (ChangeAutoRotate v) s = change_autoRotate v s"
| "handle (ChangeRotateSpeed v) s = change_autoRotateSpeed v s"
| "handle (ChangeTransmission v) s = change_transmission v s"
| "handle (ChangeIOR v) s = change_ior v s"
| "handle (ChangeDispersion v) s = change_dispersion v s"
| "handle (ChangeThickness v) s = change_thickness v s"
| "handle (ChangeRoughness v) s = change_roughness v s"
| "handle (ChangeShowLightBeam v) s = change_showInputBeam v s"
| "handle (ChangeBeamOpacity v) s = change_inputBeamOpacity v s"
| "handle (ChangeLightIntensity v) s = change_lightIntensity v s"
| "handle (ChangeFogDensity v) s = change_fogDensity v s"
| "handle (ChangeDustParticles v) s = change_particlesVisible v s"

text \<open>The state after a sequence of events, handled in arrival order.\<close>

fun run :: "state \<Rightarrow> event list \<Rightarrow> state" where
  "run s [] = s"
| "run s (e # es) = run (handle e s) es"


text \<open>
  The pointer position of the last \<^verbatim>\<open>mousedown\<close> or \<^verbatim>\<open>mousemove\<close> among the events, and \<open>p\<close>
  if there is none: the position a drag measures its next move from.
\<close>

fun lastPointerPosition :: "number \<times> number \<Rightarrow> event list \<Rightarrow> number \<times> number" where
  "lastPointerPosition p [] = p"
| "lastPointerPosition p (e # es) =
     lastPointerPosition (case e of MouseDown x y \<Rightarrow> (x, y) | MouseMove x y \<Rightarrow> (x, y) | _ \<Rightarrow> p) es"


section \<open>Invariants\<close>

text \<open>The settings hold the orientation of the prism group.\<close>

definition settings_match_rotation :: "state \<Rightarrow> bool" where
  "settings_match_rotation s \<longleftrightarrow>
     prismRotateX (settings s) = prismGroup_rotation_x s \<and>
     prismRotateY (settings s) = prismGroup_rotation_y s \<and>
     prismRotateZ (settings s) = prismGroup_rotation_z s"

text \<open>The three solid meshes hold the address of the glass material, which is allocated.\<close>

definition solids_share_glass :: "state \<Rightarrow> bool" where
  "solids_share_glass s \<longleftrightarrow>
     material (singlePyramid s) = glassMaterial \<and>
     material (upperPyramid s) = glassMaterial \<and>
     material (lowerPyramid s) = glassMaterial \<and>
     materials s glassMaterial \<noteq> None"


section \<open>Rounding: correctness of the exponent and evaluation by certificate\<close>

declare bitlen.simps [simp del]

lemma bitlen_bounds: "0 < n \<Longrightarrow> 2 ^ (bitlen n - 1) \<le> n \<and> n < 2 ^ bitlen n"
proof (induction n rule: bitlen.induct)
  case (1 n)
  show ?case
  proof (cases "n div 2 = 0")
    case True
    with 1 have "n = 1" by (simp add: div_eq_0_iff)
    then show ?thesis by (simp add: bitlen.simps[of "Suc 0"] bitlen.simps[of 0])
  next
    case False
    then have pos: "0 < n div 2" by simp
    from 1 have n0: "n \<noteq> 0" by simp
    from 1(1)[OF n0 pos] have lo: "2 ^ (bitlen (n div 2) - 1) \<le> n div 2"
      and hi: "n div 2 < 2 ^ bitlen (n div 2)" by simp_all
    have bl: "bitlen n = Suc (bitlen (n div 2))" using n0 by (simp add: bitlen.simps[of n])
    have bpos: "0 < bitlen (n div 2)" using pos by (simp add: bitlen.simps[of "n div 2"])
    have "2 ^ (bitlen n - 1) = 2 * 2 ^ (bitlen (n div 2) - 1)"
      using bl bpos by (cases "bitlen (n div 2)") simp_all
    also have "\<dots> \<le> 2 * (n div 2)" using lo by simp
    also have "\<dots> \<le> n" by simp
    finally have A: "2 ^ (bitlen n - 1) \<le> n" .
    have "n < 2 * (n div 2) + 2" by presburger
    also have "\<dots> \<le> 2 * 2 ^ bitlen (n div 2)" using hi by simp
    also have "\<dots> = 2 ^ bitlen n" using bl by simp
    finally have B: "n < 2 ^ bitlen n" .
    from A B show ?thesis by simp
  qed
qed

lemma ilog2_bounds:
  assumes "0 < a"
  shows "2 powi (ilog2 a) \<le> a \<and> a < 2 powi (ilog2 a + 1)"
proof -
  obtain p q where pq: "quotient_of a = (p, q)" by (cases "quotient_of a")
  have q: "0 < q" using pq quotient_of_denom_pos by blast
  have a: "a = of_int p / of_int q" using pq by (rule quotient_of_div)
  have p: "0 < p" using assms q a by (simp add: zero_less_divide_iff)
  define bp where "bp = bitlen (nat p)"
  define bq where "bq = bitlen (nat q)"
  define c where "c = int bp - int bq"
  have bp: "2 ^ (bp - 1) \<le> nat p" "nat p < 2 ^ bp"
    using bitlen_bounds[of "nat p"] p by (simp_all add: bp_def)
  have bq: "2 ^ (bq - 1) \<le> nat q" "nat q < 2 ^ bq"
    using bitlen_bounds[of "nat q"] q by (simp_all add: bq_def)
  have bp0: "0 < bp" using p by (simp add: bp_def bitlen.simps[of "nat p"])
  have bq0: "0 < bq" using q by (simp add: bq_def bitlen.simps[of "nat q"])
  have P1: "(2::rat) ^ (bp - 1) \<le> of_int p"
  proof -
    have "(of_nat (2 ^ (bp - 1)) :: rat) \<le> of_nat (nat p)" using bp(1) of_nat_le_iff by blast
    then show ?thesis using p by simp
  qed
  have P2: "of_int p < (2::rat) ^ bp"
  proof -
    have "(of_nat (nat p) :: rat) < of_nat (2 ^ bp)" using bp(2) of_nat_less_iff by blast
    then show ?thesis using p by simp
  qed
  have Q1: "(2::rat) ^ (bq - 1) \<le> of_int q"
  proof -
    have "(of_nat (2 ^ (bq - 1)) :: rat) \<le> of_nat (nat q)" using bq(1) of_nat_le_iff by blast
    then show ?thesis using q by simp
  qed
  have Q2: "of_int q < (2::rat) ^ bq"
  proof -
    have "(of_nat (nat q) :: rat) < of_nat (2 ^ bq)" using bq(2) of_nat_less_iff by blast
    then show ?thesis using q by simp
  qed
  have qr: "(0::rat) < of_int q" using q by simp
  have hi: "a < 2 powi (c + 1)"
  proof -
    have "of_int p * (2::rat) ^ (bq - 1) < 2 ^ bp * of_int q"
      using P2 Q1 p q by (intro mult_less_le_imp_less) simp_all
    then have "a < 2 ^ bp / 2 ^ (bq - 1)"
      unfolding a using qr by (simp add: field_simps)
    also have "\<dots> = 2 powi (int bp - int (bq - 1))"
      by (simp add: power_int_diff)
    also have "int bp - int (bq - 1) = c + 1" using bq0 by (simp add: c_def)
    finally show ?thesis .
  qed
  have lo: "2 powi (c - 1) < a"
  proof -
    have "(2::rat) ^ (bp - 1) * of_int q < of_int p * 2 ^ bq"
      using P1 Q2 p q by (intro mult_le_less_imp_less) simp_all
    then have "2 ^ (bp - 1) / 2 ^ bq < a"
      unfolding a using qr by (simp add: field_simps)
    moreover have "(2::rat) ^ (bp - 1) / 2 ^ bq = 2 powi (int (bp - 1) - int bq)"
      by (simp add: power_int_diff)
    moreover have "int (bp - 1) - int bq = c - 1" using bp0 by (simp add: c_def)
    ultimately show ?thesis by simp
  qed
  have il: "ilog2 a = (if 2 powi c \<le> a then c else c - 1)"
    by (simp add: ilog2_def pq Let_def c_def bp_def bq_def)
  show ?thesis
  proof (cases "2 powi c \<le> a")
    case True
    then show ?thesis using il hi by simp
  next
    case False
    then show ?thesis using il lo by simp
  qed
qed

lemma ilog2_eqI:
  assumes "2 powi E \<le> a" "a < 2 powi (E + 1)"
  shows "ilog2 a = E"
proof -
  have "(0::rat) < 2 powi E" by simp
  then have a: "0 < a" using assms(1) by linarith
  from ilog2_bounds[OF a] have lo: "2 powi ilog2 a \<le> a" and hi: "a < 2 powi (ilog2 a + 1)"
    by simp_all
  have 1: "E < ilog2 a + 1"
  proof (rule ccontr)
    assume "\<not> E < ilog2 a + 1"
    then have "(2::rat) powi (ilog2 a + 1) \<le> 2 powi E"
      by (intro power_int_increasing) simp_all
    then show False using assms(1) hi by linarith
  qed
  have 2: "ilog2 a < E + 1"
  proof (rule ccontr)
    assume "\<not> ilog2 a < E + 1"
    then have "(2::rat) powi (E + 1) \<le> 2 powi ilog2 a"
      by (intro power_int_increasing) simp_all
    then show False using assms(2) lo by linarith
  qed
  from 1 2 show ?thesis by simp
qed

lemma roundTiesToEven_eqI:
  assumes "\<bar>x - of_int m\<bar> < 1 / 2"
  shows "roundTiesToEven x = m"
proof (cases "of_int m \<le> x")
  case True
  have "x < of_int m + 1" using assms by linarith
  with True have f: "\<lfloor>x\<rfloor> = m" by (simp add: floor_unique)
  have "x - of_int m < 1 / 2" using assms by linarith
  then show ?thesis by (simp add: roundTiesToEven_def f Let_def)
next
  case False
  have lo: "of_int (m - 1) \<le> x" using assms by (simp, linarith)
  have hi: "x < of_int (m - 1) + 1" using False by simp
  from lo hi have f: "\<lfloor>x\<rfloor> = m - 1" by (rule floor_unique)
  have "1 / 2 < x - of_int (m - 1)" using assms by (simp, linarith)
  then show ?thesis by (simp add: roundTiesToEven_def f Let_def)
qed

text \<open>
  A certificate for one rounding: the exponent \<open>E\<close> and the integer significand \<open>m\<close> of the
  result. Every premise is a comparison of rational numerals.
\<close>

lemma fl_eqI:
  assumes "2 powi E \<le> x" "x < 2 powi (E + 1)" "- 1022 \<le> E"
    and "\<bar>x / 2 powi (E - 52) - of_int m\<bar> < 1 / 2"
    and "r = of_int m * 2 powi (E - 52)"
    and "r < 2 powi 1024"
  shows "fl x = Num r"
proof -
  have "(0::rat) < 2 powi E" by simp
  then have x: "0 < x" using assms(1) by linarith
  have il: "ilog2 x = E" using assms(1,2) by (rule ilog2_eqI)
  have mx: "max E (- 1022) = E" using assms(3) by simp
  have rt: "roundTiesToEven (x / 2 powi (E - 52)) = m"
    using assms(4) by (rule roundTiesToEven_eqI)
  show ?thesis
    using x assms(5,6) by (simp add: fl_def Let_def il mx rt)
qed

lemma roundTiesToEven_tieI:
  assumes "x = of_int f + 1 / 2"
  shows "roundTiesToEven x = (if even f then f else f + 1)"
proof -
  have "of_int f \<le> x" "x < of_int f + 1" using assms by simp_all
  then have f: "\<lfloor>x\<rfloor> = f" by (rule floor_unique)
  have "x - of_int f = 1 / 2" using assms by simp
  then show ?thesis by (simp add: roundTiesToEven_def f Let_def)
qed

text \<open>The certificate of a rounding that falls exactly halfway between two neighbours.\<close>

lemma fl_tie_eqI:
  assumes "2 powi E \<le> x" "x < 2 powi (E + 1)" "- 1022 \<le> E"
    and "x / 2 powi (E - 52) = of_int f + 1 / 2"
    and "m = (if even f then f else f + 1)"
    and "r = of_int m * 2 powi (E - 52)"
    and "r < 2 powi 1024"
  shows "fl x = Num r"
proof -
  have "(0::rat) < 2 powi E" by simp
  then have x: "0 < x" using assms(1) by linarith
  have il: "ilog2 x = E" using assms(1,2) by (rule ilog2_eqI)
  have mx: "max E (- 1022) = E" using assms(3) by simp
  have rt: "roundTiesToEven (x / 2 powi (E - 52)) = m"
    using roundTiesToEven_tieI[OF assms(4)] assms(5) by simp
  show ?thesis
    using x assms(6,7) by (simp add: fl_def Let_def il mx rt)
qed

text \<open>Rounding is to a nearest integer, and symmetric in the sign.\<close>

lemma roundTiesToEven_error: "\<bar>x - of_int (roundTiesToEven x)\<bar> \<le> 1 / 2"
proof -
  define d where "d = x - of_int \<lfloor>x\<rfloor>"
  have d: "0 \<le> d" "d < 1" unfolding d_def by linarith+
  consider "d < 1 / 2" | "1 / 2 < d" | "d = 1 / 2" by linarith
  then show ?thesis
  proof cases
    case 1
    then have "roundTiesToEven x = \<lfloor>x\<rfloor>" by (simp add: roundTiesToEven_def Let_def d_def)
    then show ?thesis using 1 d by (simp add: d_def)
  next
    case 2
    then have "roundTiesToEven x = \<lfloor>x\<rfloor> + 1" by (simp add: roundTiesToEven_def Let_def d_def)
    then show ?thesis using 2 d by (simp add: d_def)
  next
    case 3
    then have "roundTiesToEven x = \<lfloor>x\<rfloor> \<or> roundTiesToEven x = \<lfloor>x\<rfloor> + 1"
      by (simp add: roundTiesToEven_def Let_def d_def)
    then show ?thesis using 3 by (auto simp add: d_def)
  qed
qed

text \<open>In the normal range the rounded value is within half a unit in the last place.\<close>

lemma fl_half_ulp:
  assumes "2 powi E \<le> x" "x < 2 powi (E + 1)" "- 1022 \<le> E" "fl x = Num r"
  shows "\<bar>r - x\<bar> \<le> 2 powi (E - 53)"
proof -
  have "(0::rat) < 2 powi E" by simp
  then have x: "0 < x" using assms(1) by linarith
  have il: "ilog2 x = E" using assms(1,2) by (rule ilog2_eqI)
  define u :: rat where "u = 2 powi (E - 52)"
  have u: "0 < u" by (simp add: u_def)
  define m where "m = roundTiesToEven (x / u)"
  have r: "r = of_int m * u"
    using assms(3,4) x by (simp add: fl_def Let_def il u_def m_def split: if_splits)
  have "\<bar>x / u - of_int m\<bar> \<le> 1 / 2" unfolding m_def by (rule roundTiesToEven_error)
  then have "\<bar>x / u - of_int m\<bar> * u \<le> 1 / 2 * u" using u by (intro mult_right_mono) simp_all
  moreover have "\<bar>x / u - of_int m\<bar> * u = \<bar>x - of_int m * u\<bar>"
  proof -
    have "\<bar>x / u - of_int m\<bar> * u = \<bar>x / u - of_int m\<bar> * \<bar>u\<bar>" using u by simp
    also have "\<dots> = \<bar>(x / u - of_int m) * u\<bar>" by (simp add: abs_mult)
    also have "(x / u - of_int m) * u = x - of_int m * u" using u by (simp add: field_simps)
    finally show ?thesis .
  qed
  moreover have "1 / 2 * u = 2 powi (E - 53)"
  proof -
    have "(2::rat) powi (E - 52) = 2 powi (E - 53 + 1)" by simp
    also have "\<dots> = 2 powi (E - 53) * 2" by (rule power_int_add_1) simp
    finally show ?thesis by (simp add: u_def)
  qed
  ultimately have "\<bar>x - of_int m * u\<bar> \<le> 2 powi (E - 53)" by simp
  then show ?thesis unfolding r by (simp add: abs_minus_commute)
qed

lemma fl_minus: "fl (- x) = jneg (fl x)"
  by (simp add: fl_def Let_def)


section \<open>Values of the literals and of the arithmetic at concrete inputs\<close>

text \<open>
  Each value below is one rounding, proved from its exponent and significand. The literals
  are written as the fractions in lowest terms they denote: \<open>1 / 200\<close> is \<^verbatim>\<open>0.005\<close>,
  \<open>1 / 100\<close> is \<^verbatim>\<open>0.01\<close>, \<open>3 / 10\<close> is \<^verbatim>\<open>0.3\<close>, \<open>1 / 20\<close> is \<^verbatim>\<open>0.05\<close>, \<open>3 / 40\<close> is
  \<^verbatim>\<open>0.075\<close>, \<open>3 / 2\<close> is \<^verbatim>\<open>1.5\<close>, \<open>13 / 10\<close> is \<^verbatim>\<open>1.3\<close>.
\<close>

declare jadd.simps(1) [simp del] jmul.simps(1) [simp del] jdiv.simps(1) [simp del]

lemma lit_0 [simp]: "lit 0 = Num 0"
  by (simp add: lit_def fl_def)

lemma lit_1 [simp]: "lit (1) = Num (1)"
  unfolding lit_def by (rule fl_eqI[where E="0" and m=4503599627370496]) simp_all

lemma lit_2 [simp]: "lit (2) = Num (2)"
  unfolding lit_def by (rule fl_eqI[where E="1" and m=4503599627370496]) simp_all

lemma lit_4 [simp]: "lit (4) = Num (4)"
  unfolding lit_def by (rule fl_eqI[where E="2" and m=4503599627370496]) simp_all

lemma lit_6 [simp]: "lit (6) = Num (6)"
  unfolding lit_def by (rule fl_eqI[where E="2" and m=6755399441055744]) simp_all

lemma lit_21 [simp]: "lit (21) = Num (21)"
  unfolding lit_def by (rule fl_eqI[where E="4" and m=5910974510923776]) simp_all

lemma lit_100 [simp]: "lit (100) = Num (100)"
  unfolding lit_def by (rule fl_eqI[where E="6" and m=7036874417766400]) simp_all

lemma lit_110 [simp]: "lit (110) = Num (110)"
  unfolding lit_def by (rule fl_eqI[where E="6" and m=7740561859543040]) simp_all

lemma lit_115 [simp]: "lit (115) = Num (115)"
  unfolding lit_def by (rule fl_eqI[where E="6" and m=8092405580431360]) simp_all

lemma lit_0_005 [simp]: "lit (1 / 200) = Num (5764607523034235 / 1152921504606846976)"
  unfolding lit_def by (rule fl_eqI[where E="-8" and m=5764607523034235]) simp_all

lemma lit_0_01 [simp]: "lit (1 / 100) = Num (5764607523034235 / 576460752303423488)"
  unfolding lit_def by (rule fl_eqI[where E="-7" and m=5764607523034235]) simp_all

lemma lit_0_3 [simp]: "lit (3 / 10) = Num (5404319552844595 / 18014398509481984)"
  unfolding lit_def by (rule fl_eqI[where E="-2" and m=5404319552844595]) simp_all

lemma lit_0_05 [simp]: "lit (1 / 20) = Num (3602879701896397 / 72057594037927936)"
  unfolding lit_def by (rule fl_eqI[where E="-5" and m=7205759403792794]) simp_all

lemma lit_0_075 [simp]: "lit (3 / 40) = Num (5404319552844595 / 72057594037927936)"
  unfolding lit_def by (rule fl_eqI[where E="-4" and m=5404319552844595]) simp_all

lemma lit_1_5 [simp]: "lit (3 / 2) = Num (3 / 2)"
  unfolding lit_def by (rule fl_eqI[where E="0" and m=6755399441055744]) simp_all

lemma lit_1_3 [simp]: "lit (13 / 10) = Num (5854679515581645 / 4503599627370496)"
  unfolding lit_def by (rule fl_eqI[where E="0" and m=5854679515581645]) simp_all

lemma lit_0_1 [simp]: "lit (1 / 10) = Num (3602879701896397 / 36028797018963968)"
  unfolding lit_def by (rule fl_eqI[where E="-4" and m=7205759403792794]) simp_all

lemma lit_0_2 [simp]: "lit (1 / 5) = Num (3602879701896397 / 18014398509481984)"
  unfolding lit_def by (rule fl_eqI[where E="-3" and m=7205759403792794]) simp_all

lemma sum_0_1_0_2 [simp]: "jadd (Num (3602879701896397 / 36028797018963968)) (Num (3602879701896397 / 18014398509481984)) = Num (1351079888211149 / 4503599627370496)"
  unfolding jadd.simps by (rule fl_tie_eqI[where E="-2" and f=5404319552844595 and m=5404319552844596]) simp_all

lemma height_value [simp]: "jmul (Num (3 / 2)) (Num (5854679515581645 / 4503599627370496)) = Num (2195504818343117 / 1125899906842624)"
  unfolding jmul.simps by (rule fl_tie_eqI[where E="0" and f=8782019273372467 and m=8782019273372468]) simp_all

lemma biPyramidHeight_value [simp]: "biPyramidHeight = Num (2195504818343117 / 1125899906842624)"
  by (simp add: biPyramidHeight_def)

lemma half_height_value [simp]: "jdiv (Num (2195504818343117 / 1125899906842624)) (Num (2)) = Num (2195504818343117 / 2251799813685248)"
proof -
  have "fl (2195504818343117 / 2251799813685248) = Num (2195504818343117 / 2251799813685248)"
    by (rule fl_eqI[where E="-1" and m=8782019273372468]) simp_all
  then show ?thesis by (simp add: jdiv.simps(1))
qed

lemma half_of_zero [simp]: "jdiv (Num 0) (Num 2) = Num 0"
  by (simp add: jdiv.simps(1) fl_def)

lemma upper_offset_gap_0 [simp]: "jadd (Num (2195504818343117 / 2251799813685248)) (Num (0)) = Num (2195504818343117 / 2251799813685248)"
  unfolding jadd.simps by (rule fl_eqI[where E="-1" and m=8782019273372468]) simp_all

lemma half_of_one [simp]: "jdiv (Num (1)) (Num (2)) = Num (1 / 2)"
proof -
  have "fl (1 / 2) = Num (1 / 2)"
    by (rule fl_eqI[where E="-1" and m=4503599627370496]) simp_all
  then show ?thesis by (simp add: jdiv.simps(1))
qed

lemma upper_offset_gap_1 [simp]: "jadd (Num (2195504818343117 / 2251799813685248)) (Num (1 / 2)) = Num (3321404725185741 / 2251799813685248)"
  unfolding jadd.simps by (rule fl_eqI[where E="0" and m=6642809450371482]) simp_all

lemma quarter_pi_value [simp]: "jdiv (Num (884279719003555 / 281474976710656)) (Num (4)) = Num (884279719003555 / 1125899906842624)"
proof -
  have "fl (884279719003555 / 1125899906842624) = Num (884279719003555 / 1125899906842624)"
    by (rule fl_eqI[where E="-1" and m=7074237752028440]) simp_all
  then show ?thesis by (simp add: jdiv.simps(1))
qed

lemma sixth_pi_value [simp]: "jdiv (Num (884279719003555 / 281474976710656)) (Num (6)) = Num (4716158501352293 / 9007199254740992)"
proof -
  have "fl (884279719003555 / 1688849860263936) = Num (4716158501352293 / 9007199254740992)"
    by (rule fl_eqI[where E="-1" and m=4716158501352293]) simp_all
  then show ?thesis by (simp add: jdiv.simps(1))
qed

lemma delta_110_100 [simp]: "jadd (Num (110)) (Num ((- 100))) = Num (10)"
  unfolding jadd.simps by (rule fl_eqI[where E="3" and m=5629499534213120]) simp_all

lemma delta_115_100 [simp]: "jadd (Num (115)) (Num ((- 100))) = Num (15)"
  unfolding jadd.simps by (rule fl_eqI[where E="3" and m=8444249301319680]) simp_all

lemma drag_10 [simp]: "jmul (Num (10)) (Num (5764607523034235 / 1152921504606846976)) = Num (3602879701896397 / 72057594037927936)"
  unfolding jmul.simps by (rule fl_eqI[where E="-5" and m=7205759403792794]) simp_all

lemma drag_15 [simp]: "jmul (Num (15)) (Num (5764607523034235 / 1152921504606846976)) = Num (5404319552844595 / 72057594037927936)"
  unfolding jmul.simps by (rule fl_eqI[where E="-4" and m=5404319552844595]) simp_all

lemma tick_increment [simp]: "jmul (Num (5404319552844595 / 18014398509481984)) (Num (5764607523034235 / 576460752303423488)) = Num (3458764513820541 / 1152921504606846976)"
  unfolding jmul.simps by (rule fl_eqI[where E="-9" and m=6917529027641082]) simp_all

lemma tick_1 [simp]: "jadd (Num (884279719003555 / 1125899906842624)) (Num (3458764513820541 / 1152921504606846976)) = Num (7101259349792663 / 9007199254740992)"
  unfolding jadd.simps by (rule fl_eqI[where E="-1" and m=7101259349792663]) simp_all

lemma tick_2 [simp]: "jadd (Num (7101259349792663 / 9007199254740992)) (Num (3458764513820541 / 1152921504606846976)) = Num (3564140473778443 / 4503599627370496)"
  unfolding jadd.simps by (rule fl_eqI[where E="-1" and m=7128280947556886]) simp_all

lemma tick_3 [simp]: "jadd (Num (3564140473778443 / 4503599627370496)) (Num (3458764513820541 / 1152921504606846976)) = Num (7155302545321109 / 9007199254740992)"
  unfolding jadd.simps by (rule fl_eqI[where E="-1" and m=7155302545321109]) simp_all

lemma tick_4 [simp]: "jadd (Num (7155302545321109 / 9007199254740992)) (Num (3458764513820541 / 1152921504606846976)) = Num (1795581035771333 / 2251799813685248)"
  unfolding jadd.simps by (rule fl_eqI[where E="-1" and m=7182324143085332]) simp_all

lemma tick_5 [simp]: "jadd (Num (1795581035771333 / 2251799813685248)) (Num (3458764513820541 / 1152921504606846976)) = Num (7209345740849555 / 9007199254740992)"
  unfolding jadd.simps by (rule fl_eqI[where E="-1" and m=7209345740849555]) simp_all

lemma tick_6 [simp]: "jadd (Num (7209345740849555 / 9007199254740992)) (Num (3458764513820541 / 1152921504606846976)) = Num (3618183669306889 / 4503599627370496)"
  unfolding jadd.simps by (rule fl_eqI[where E="-1" and m=7236367338613778]) simp_all

lemma tick_7 [simp]: "jadd (Num (3618183669306889 / 4503599627370496)) (Num (3458764513820541 / 1152921504606846976)) = Num (7263388936378001 / 9007199254740992)"
  unfolding jadd.simps by (rule fl_eqI[where E="-1" and m=7263388936378001]) simp_all

lemma tick_8 [simp]: "jadd (Num (7263388936378001 / 9007199254740992)) (Num (3458764513820541 / 1152921504606846976)) = Num (455650658383889 / 562949953421312)"
  unfolding jadd.simps by (rule fl_eqI[where E="-1" and m=7290410534142224]) simp_all

lemma tick_9 [simp]: "jadd (Num (455650658383889 / 562949953421312)) (Num (3458764513820541 / 1152921504606846976)) = Num (7317432131906447 / 9007199254740992)"
  unfolding jadd.simps by (rule fl_eqI[where E="-1" and m=7317432131906447]) simp_all

lemma tick_10 [simp]: "jadd (Num (7317432131906447 / 9007199254740992)) (Num (3458764513820541 / 1152921504606846976)) = Num (3672226864835335 / 4503599627370496)"
  unfolding jadd.simps by (rule fl_eqI[where E="-1" and m=7344453729670670]) simp_all

lemma tick_11 [simp]: "jadd (Num (3672226864835335 / 4503599627370496)) (Num (3458764513820541 / 1152921504606846976)) = Num (7371475327434893 / 9007199254740992)"
  unfolding jadd.simps by (rule fl_eqI[where E="-1" and m=7371475327434893]) simp_all

lemma tick_12 [simp]: "jadd (Num (7371475327434893 / 9007199254740992)) (Num (3458764513820541 / 1152921504606846976)) = Num (1849624231299779 / 2251799813685248)"
  unfolding jadd.simps by (rule fl_eqI[where E="-1" and m=7398496925199116]) simp_all

lemma tick_13 [simp]: "jadd (Num (1849624231299779 / 2251799813685248)) (Num (3458764513820541 / 1152921504606846976)) = Num (7425518522963339 / 9007199254740992)"
  unfolding jadd.simps by (rule fl_eqI[where E="-1" and m=7425518522963339]) simp_all

lemma tick_14 [simp]: "jadd (Num (7425518522963339 / 9007199254740992)) (Num (3458764513820541 / 1152921504606846976)) = Num (3726270060363781 / 4503599627370496)"
  unfolding jadd.simps by (rule fl_eqI[where E="-1" and m=7452540120727562]) simp_all

lemma tick_15 [simp]: "jadd (Num (3726270060363781 / 4503599627370496)) (Num (3458764513820541 / 1152921504606846976)) = Num (7479561718491785 / 9007199254740992)"
  unfolding jadd.simps by (rule fl_eqI[where E="-1" and m=7479561718491785]) simp_all

lemma tick_16 [simp]: "jadd (Num (7479561718491785 / 9007199254740992)) (Num (3458764513820541 / 1152921504606846976)) = Num (938322914532001 / 1125899906842624)"
  unfolding jadd.simps by (rule fl_eqI[where E="-1" and m=7506583316256008]) simp_all

lemma tick_17 [simp]: "jadd (Num (938322914532001 / 1125899906842624)) (Num (3458764513820541 / 1152921504606846976)) = Num (7533604914020231 / 9007199254740992)"
  unfolding jadd.simps by (rule fl_eqI[where E="-1" and m=7533604914020231]) simp_all

lemma tick_18 [simp]: "jadd (Num (7533604914020231 / 9007199254740992)) (Num (3458764513820541 / 1152921504606846976)) = Num (3780313255892227 / 4503599627370496)"
  unfolding jadd.simps by (rule fl_eqI[where E="-1" and m=7560626511784454]) simp_all

lemma tick_19 [simp]: "jadd (Num (3780313255892227 / 4503599627370496)) (Num (3458764513820541 / 1152921504606846976)) = Num (7587648109548677 / 9007199254740992)"
  unfolding jadd.simps by (rule fl_eqI[where E="-1" and m=7587648109548677]) simp_all

lemma tick_20 [simp]: "jadd (Num (7587648109548677 / 9007199254740992)) (Num (3458764513820541 / 1152921504606846976)) = Num (1903667426828225 / 2251799813685248)"
  unfolding jadd.simps by (rule fl_eqI[where E="-1" and m=7614669707312900]) simp_all

lemma tick_21 [simp]: "jadd (Num (1903667426828225 / 2251799813685248)) (Num (3458764513820541 / 1152921504606846976)) = Num (7641691305077123 / 9007199254740992)"
  unfolding jadd.simps by (rule fl_eqI[where E="-1" and m=7641691305077123]) simp_all

lemma closed_21_speed [simp]: "jmul (Num (21)) (Num (5404319552844595 / 18014398509481984)) = Num (7093169413108531 / 1125899906842624)"
  unfolding jmul.simps by (rule fl_eqI[where E="2" and m=7093169413108531]) simp_all

lemma closed_21_speed_c [simp]: "jmul (Num (7093169413108531 / 1125899906842624)) (Num (5764607523034235 / 576460752303423488)) = Num (1134907106097365 / 18014398509481984)"
  unfolding jmul.simps by (rule fl_eqI[where E="-4" and m=4539628424389460]) simp_all

lemma closed_sum [simp]: "jadd (Num (884279719003555 / 1125899906842624)) (Num (1134907106097365 / 18014398509481984)) = Num (3820845652538561 / 4503599627370496)"
  unfolding jadd.simps by (rule fl_tie_eqI[where E="-1" and f=7641691305077122 and m=7641691305077122]) simp_all

lemma closed_21_inc [simp]: "jmul (Num (21)) (Num (3458764513820541 / 1152921504606846976)) = Num (1134907106097365 / 18014398509481984)"
  unfolding jmul.simps by (rule fl_eqI[where E="-4" and m=4539628424389460]) simp_all

lemma tick_21_difference [simp]: "jadd (Num (7641691305077123 / 9007199254740992)) (Num ((- (884279719003555 / 1125899906842624)))) = Num (567453553048683 / 9007199254740992)"
  unfolding jadd.simps by (rule fl_eqI[where E="-4" and m=4539628424389464]) simp_all

lemma lit_120 [simp]: "lit (120) = Num (120)"
  unfolding lit_def by (rule fl_eqI[where E="6" and m=8444249301319680]) simp_all

lemma lit_130 [simp]: "lit (130) = Num (130)"
  unfolding lit_def by (rule fl_eqI[where E="7" and m=4573968371548160]) simp_all

lemma delta_120_110 [simp]: "jadd (Num (120)) (Num (- 110)) = Num (10)"
  unfolding jadd.simps by (rule fl_eqI[where E="3" and m=5629499534213120]) simp_all

lemma delta_130_115 [simp]: "jadd (Num (130)) (Num (- 115)) = Num (15)"
  unfolding jadd.simps by (rule fl_eqI[where E="3" and m=8444249301319680]) simp_all



section \<open>Helper lemmas about the handlers\<close>

lemmas handler_defs =
  mousedown_def mousemove_def mouseup_def mouseleave_def animate_def
  updateDisplay_all_def setActiveShape_def updateBiPyramidGap_def
  change_shape_def change_biPyramidGap_def change_prismRotateX_def change_prismRotateY_def
  change_prismRotateZ_def change_autoRotate_def change_autoRotateSpeed_def
  change_transmission_def change_ior_def change_dispersion_def change_thickness_def
  change_roughness_def change_showInputBeam_def change_inputBeamOpacity_def
  change_lightIntensity_def change_fogDensity_def change_particlesVisible_def

lemma settings_match_rotation_init: "settings_match_rotation init"
  by (simp add: settings_match_rotation_def init_def Let_def)

lemma settings_match_rotation_handle:
  "settings_match_rotation s \<Longrightarrow> settings_match_rotation (handle e s)"
  by (cases e) (auto simp add: settings_match_rotation_def handler_defs Let_def split: option.splits)

lemma settings_match_rotation_run:
  "settings_match_rotation s \<Longrightarrow> settings_match_rotation (run s evs)"
  by (induction evs arbitrary: s) (simp_all add: settings_match_rotation_handle)

lemma solids_share_glass_init: "solids_share_glass init"
  by (simp add: solids_share_glass_def init_def Let_def)

lemma solids_share_glass_handle: "solids_share_glass s \<Longrightarrow> solids_share_glass (handle e s)"
  by (cases e) (auto simp add: solids_share_glass_def handler_defs Let_def split: option.splits)

lemma solids_share_glass_run: "solids_share_glass s \<Longrightarrow> solids_share_glass (run s evs)"
  by (induction evs arbitrary: s) (simp_all add: solids_share_glass_handle)

lemma not_dragging_handle:
  "\<not> isDragging s \<Longrightarrow> (\<forall>x y. e \<noteq> MouseDown x y) \<Longrightarrow> \<not> isDragging (handle e s)"
  by (cases e) (auto simp add: handler_defs Let_def split: option.splits)

lemma not_dragging_run:
  "\<not> isDragging s \<Longrightarrow> (\<forall>x y. MouseDown x y \<notin> set evs) \<Longrightarrow> \<not> isDragging (run s evs)"
proof (induction evs arbitrary: s)
  case Nil
  then show ?case by simp
next
  case (Cons e evs)
  from Cons.prems have "\<forall>x y. e \<noteq> MouseDown x y" by auto
  with Cons.prems(1) have "\<not> isDragging (handle e s)" by (rule not_dragging_handle)
  moreover from Cons.prems have "\<forall>x y. MouseDown x y \<notin> set evs" by auto
  ultimately show ?case using Cons.IH by simp
qed

lemma mousemove_idle: "\<not> isDragging s \<Longrightarrow> mousemove x y s = s"
  by (simp add: mousemove_def)

lemma updateDisplay_all_sel:
  "prismGroup_rotation_x (updateDisplay_all s) = prismGroup_rotation_x s"
  "prismGroup_rotation_y (updateDisplay_all s) = prismGroup_rotation_y s"
  "prismGroup_rotation_z (updateDisplay_all s) = prismGroup_rotation_z s"
  "settings (updateDisplay_all s) = settings s"
  "isDragging (updateDisplay_all s) = isDragging s"
  "previousMousePosition (updateDisplay_all s) = previousMousePosition s"
  "shown_RotateX (gui (updateDisplay_all s)) = prismRotateX (settings s)"
  "shown_RotateY (gui (updateDisplay_all s)) = prismRotateY (settings s)"
  "shown_RotateZ (gui (updateDisplay_all s)) = prismRotateZ (settings s)"
  by (simp_all add: updateDisplay_all_def Let_def split: option.splits)

lemma mousemove_dragging:
  assumes "isDragging s"
  shows "prismGroup_rotation_y (mousemove x y s) =
           jadd (prismGroup_rotation_y s) (jmul (jsub x (fst (previousMousePosition s))) (lit 0.005))"
    and "prismGroup_rotation_x (mousemove x y s) =
           jadd (prismGroup_rotation_x s) (jmul (jsub y (snd (previousMousePosition s))) (lit 0.005))"
    and "prismGroup_rotation_z (mousemove x y s) = prismGroup_rotation_z s"
    and "prismRotateY (settings (mousemove x y s)) = prismGroup_rotation_y (mousemove x y s)"
    and "prismRotateX (settings (mousemove x y s)) = prismGroup_rotation_x (mousemove x y s)"
    and "shown_RotateY (gui (mousemove x y s)) = prismGroup_rotation_y (mousemove x y s)"
    and "shown_RotateX (gui (mousemove x y s)) = prismGroup_rotation_x (mousemove x y s)"
    and "previousMousePosition (mousemove x y s) = (x, y)"
    and "isDragging (mousemove x y s)"
  using assms by (simp_all add: mousemove_def Let_def updateDisplay_all_sel)

lemma mousedown_sel:
  "isDragging (mousedown x y s)"
  "previousMousePosition (mousedown x y s) = (x, y)"
  "prismGroup_rotation_x (mousedown x y s) = prismGroup_rotation_x s"
  "prismGroup_rotation_y (mousedown x y s) = prismGroup_rotation_y s"
  "prismGroup_rotation_z (mousedown x y s) = prismGroup_rotation_z s"
  "settings (mousedown x y s) = settings s"
  "gui (mousedown x y s) = gui s"
  by (simp_all add: mousedown_def)

lemma mouseup_sel:
  "\<not> isDragging (mouseup s)"
  "prismGroup_rotation_x (mouseup s) = prismGroup_rotation_x s"
  "prismGroup_rotation_y (mouseup s) = prismGroup_rotation_y s"
  "prismGroup_rotation_z (mouseup s) = prismGroup_rotation_z s"
  "settings (mouseup s) = settings s"
  "\<not> isDragging (mouseleave s)"
  "prismGroup_rotation_x (mouseleave s) = prismGroup_rotation_x s"
  "prismGroup_rotation_y (mouseleave s) = prismGroup_rotation_y s"
  "prismGroup_rotation_z (mouseleave s) = prismGroup_rotation_z s"
  "settings (mouseleave s) = settings s"
  by (simp_all add: mouseup_def mouseleave_def)

lemma init_orientation [simp]:
  "prismGroup_rotation_x init = Num (4716158501352293 / 9007199254740992)"
  "prismGroup_rotation_y init = Num (884279719003555 / 1125899906842624)"
  "prismGroup_rotation_z init = Num 0"
  by (simp_all add: init_def Let_def Math_PI_def)

lemma init_auto_rotate [simp]:
  "autoRotate (settings init)"
  "autoRotateSpeed (settings init) = Num (5404319552844595 / 18014398509481984)"
  "\<not> isDragging init"
  by (simp_all add: init_def Let_def)

lemma init_shown_RotateY [simp]: "shown_RotateY (gui init) = Num (884279719003555 / 1125899906842624)"
  by (simp add: init_def Let_def Math_PI_def)

lemma animate_frame:
  "autoRotate (settings (animate s)) = autoRotate (settings s)"
  "autoRotateSpeed (settings (animate s)) = autoRotateSpeed (settings s)"
  "isDragging (animate s) = isDragging s"
  "prismGroup_rotation_x (animate s) = prismGroup_rotation_x s"
  "prismGroup_rotation_z (animate s) = prismGroup_rotation_z s"
  "gui (animate s) = gui s"
  by (simp_all add: animate_def Let_def)

lemma animate_rotation_y:
  "prismGroup_rotation_y (animate s) =
     (if autoRotate (settings s) \<and> \<not> isDragging s
      then jadd (prismGroup_rotation_y s) (jmul (autoRotateSpeed (settings s)) (lit 0.01))
      else prismGroup_rotation_y s)"
  by (simp add: animate_def Let_def)

lemma animate_settings_y:
  "prismRotateY (settings (animate s)) =
     (if autoRotate (settings s) \<and> \<not> isDragging s
      then jadd (prismGroup_rotation_y s) (jmul (autoRotateSpeed (settings s)) (lit 0.01))
      else prismRotateY (settings s))"
  by (simp add: animate_def Let_def)

lemma frames_frame:
  "autoRotate (settings ((animate ^^ n) s)) = autoRotate (settings s)
   \<and> autoRotateSpeed (settings ((animate ^^ n) s)) = autoRotateSpeed (settings s)
   \<and> isDragging ((animate ^^ n) s) = isDragging s
   \<and> prismGroup_rotation_x ((animate ^^ n) s) = prismGroup_rotation_x s
   \<and> prismGroup_rotation_z ((animate ^^ n) s) = prismGroup_rotation_z s"
  by (induction n) (simp_all add: animate_frame)

lemma frames_rotation_y:
  "prismGroup_rotation_y ((animate ^^ n) s) =
     (if autoRotate (settings s) \<and> \<not> isDragging s
      then ((\<lambda>r. jadd r (jmul (autoRotateSpeed (settings s)) (lit 0.01))) ^^ n) (prismGroup_rotation_y s)
      else prismGroup_rotation_y s)"
  by (induction n) (simp_all add: animate_rotation_y frames_frame)

lemma frames_21_init: "prismGroup_rotation_y ((animate ^^ 21) init) = Num (7641691305077123 / 9007199254740992)"
  unfolding frames_rotation_y by (simp add: eval_nat_numeral)

lemma material_of_setActiveShape: "material_of (setActiveShape n s) m = material_of s m"
  by (simp add: material_of_def setActiveShape_def)

lemma dragging_handle:
  "isDragging s \<Longrightarrow> e \<noteq> MouseUp \<Longrightarrow> e \<noteq> MouseLeave \<Longrightarrow>
     isDragging (handle e s)
     \<and> previousMousePosition (handle e s) = lastPointerPosition (previousMousePosition s) [e]"
  by (cases e) (auto simp add: handler_defs Let_def split: option.splits)

lemma dragging_run:
  "isDragging s \<Longrightarrow> MouseUp \<notin> set evs \<Longrightarrow> MouseLeave \<notin> set evs \<Longrightarrow>
     isDragging (run s evs)
     \<and> previousMousePosition (run s evs) = lastPointerPosition (previousMousePosition s) evs"
proof (induction evs arbitrary: s)
  case Nil
  then show ?case by simp
next
  case (Cons e evs)
  from Cons.prems have e: "e \<noteq> MouseUp" "e \<noteq> MouseLeave" by auto
  from dragging_handle[OF Cons.prems(1) e]
  have d: "isDragging (handle e s)"
    and p: "previousMousePosition (handle e s) = lastPointerPosition (previousMousePosition s) [e]"
    by simp_all
  from Cons.prems have "MouseUp \<notin> set evs" "MouseLeave \<notin> set evs" by auto
  from Cons.IH[OF d this] show ?case using p by simp
qed




section \<open>The claims\<close>

text \<open>
  C1. Whatever events have been handled since the module was loaded, and whichever event
  \<open>e\<close> comes next (a change of a rotation controller, a pointer move during a drag, an
  animation frame with auto-rotate, or any other), right after the handler of \<open>e\<close> has run
  the three angles stored in the settings equal the three rotation components of the
  prism group.
\<close>

theorem settings_equal_rotation:
  "prismRotateX (settings (handle e (run init evs))) = prismGroup_rotation_x (handle e (run init evs))
   \<and> prismRotateY (settings (handle e (run init evs))) = prismGroup_rotation_y (handle e (run init evs))
   \<and> prismRotateZ (settings (handle e (run init evs))) = prismGroup_rotation_z (handle e (run init evs))"
  using settings_match_rotation_handle[OF settings_match_rotation_run[OF settings_match_rotation_init], of e evs]
  by (simp add: settings_match_rotation_def)

text \<open>
  C2. The claim asks that an animation frame with auto-rotate, like a drag move, refreshes
  the controllers. The code at the first animation frame after loading: the rotation about
  Y and the stored angle both become \<open>0.7883981633974483\<close>, while the controller
  \<^verbatim>\<open>Rotate Y\<close> still displays \<open>0.7853981633974483\<close>, the angle before the frame. The drag
  path from the same state does refresh: after pointer-down at \<open>(100, 100)\<close> and a move to
  \<open>(110, 115)\<close> the controller displays the stored angle.
\<close>

theorem animation_frame_leaves_panel_stale:
  "prismGroup_rotation_y (animate init) = Num (7101259349792663 / 9007199254740992)
   \<and> prismRotateY (settings (animate init)) = Num (7101259349792663 / 9007199254740992)
   \<and> shown_RotateY (gui (animate init)) = Num (884279719003555 / 1125899906842624)
   \<and> shown_RotateY (gui (animate init)) \<noteq> prismRotateY (settings (animate init))
   \<and> shown_RotateY (gui (mousemove (lit 110) (lit 115) (mousedown (lit 100) (lit 100) init)))
       = prismRotateY (settings (mousemove (lit 110) (lit 115) (mousedown (lit 100) (lit 100) init)))"
  by (simp add: animate_rotation_y animate_settings_y animate_frame mousemove_dragging mousedown_sel)

text \<open>
  C3. For each of the two names \<^verbatim>\<open>'Single Pyramid'\<close> and \<^verbatim>\<open>'Bi-Pyramid'\<close>, after
  \<open>setActiveShape\<close> exactly one of the two groups is visible (the one named), calling it
  again with the same name changes nothing, and putting the two visibility flags back
  gives the state before the call: nothing else was written.
\<close>

theorem setActiveShape_exactly_one_visible:
  assumes "n \<in> {''Single Pyramid'', ''Bi-Pyramid''}"
  shows "(singlePyramidGroup_visible (setActiveShape n s) \<noteq> biPyramidGroup_visible (setActiveShape n s))
       \<and> singlePyramidGroup_visible (setActiveShape n s) = (n = ''Single Pyramid'')
       \<and> biPyramidGroup_visible (setActiveShape n s) = (n = ''Bi-Pyramid'')
       \<and> setActiveShape n (setActiveShape n s) = setActiveShape n s
       \<and> (setActiveShape n s)\<lparr>singlePyramidGroup_visible := singlePyramidGroup_visible s,
            biPyramidGroup_visible := biPyramidGroup_visible s\<rparr> = s"
  using assms by (auto simp add: setActiveShape_def)

theorem setActiveShape_exactly_one_visible_witness:
  "''Bi-Pyramid'' \<in> {''Single Pyramid'', ''Bi-Pyramid''}
   \<and> \<not> singlePyramidGroup_visible (setActiveShape ''Bi-Pyramid'' init)
   \<and> biPyramidGroup_visible (setActiveShape ''Bi-Pyramid'' init)
   \<and> ''Single Pyramid'' \<in> {''Single Pyramid'', ''Bi-Pyramid''}
   \<and> singlePyramidGroup_visible (setActiveShape ''Single Pyramid'' init)
   \<and> \<not> biPyramidGroup_visible (setActiveShape ''Single Pyramid'' init)"
  using setActiveShape_exactly_one_visible[of "''Bi-Pyramid''" init]
    setActiveShape_exactly_one_visible[of "''Single Pyramid''" init]
  by simp

text \<open>
  C4. For every gap \<open>g\<close> with \<^verbatim>\<open>0 <= g\<close> and \<^verbatim>\<open>g <= 1\<close>, one call of \<open>updateBiPyramidGap\<close>
  leaves the upper offset at \<^verbatim>\<open>biPyramidHeight / 2 + g / 2\<close> and the lower offset at the
  negation of that value, both in the state the call returns. At \<open>g = 0\<close> the offsets are
  \<open>\<plusminus>0.9750000000000001\<close>, at \<open>g = 1\<close> they are \<open>\<plusminus>1.475\<close>.
\<close>

theorem updateBiPyramidGap_offsets_in_range:
  assumes "jle (lit 0) g" "jle g (lit 1)"
  shows "position_y (upperPyramid (updateBiPyramidGap g s)) = jadd (jdiv biPyramidHeight (lit 2)) (jdiv g (lit 2))
   \<and> position_y (lowerPyramid (updateBiPyramidGap g s)) = jneg (jadd (jdiv biPyramidHeight (lit 2)) (jdiv g (lit 2)))"
  by (simp add: updateBiPyramidGap_def)

theorem updateBiPyramidGap_offsets_in_range_witness:
  "jle (lit 0) (lit 0) \<and> jle (lit 0) (lit 1)
   \<and> position_y (upperPyramid (updateBiPyramidGap (lit 0) init)) = Num (2195504818343117 / 2251799813685248)
   \<and> position_y (lowerPyramid (updateBiPyramidGap (lit 0) init)) = Num (- (2195504818343117 / 2251799813685248))
   \<and> jle (lit 0) (lit 1) \<and> jle (lit 1) (lit 1)
   \<and> position_y (upperPyramid (updateBiPyramidGap (lit 1) init)) = Num (3321404725185741 / 2251799813685248)
   \<and> position_y (lowerPyramid (updateBiPyramidGap (lit 1) init)) = Num (- (3321404725185741 / 2251799813685248))"
  using updateBiPyramidGap_offsets_in_range[of "lit 0" init]
    updateBiPyramidGap_offsets_in_range[of "lit 1" init]
  by simp

text \<open>
  C5, as stated, fails on the code. From the initial state (auto-rotate on, speed \<open>0.3\<close>,
  no drag) 21 animation frames leave the rotation about Y at \<open>0.8483981633974483\<close>. That
  is not the initial angle plus \<^verbatim>\<open>21 * 0.3 * 0.01\<close>, in either grouping of the product
  (\<open>0.8483981633974482\<close>); the difference of the two angles is not \<^verbatim>\<open>21 * 0.3 * 0.01\<close>
  (\<open>0.06300000000000006\<close> against \<open>0.063\<close>); and the exact difference of the two stored
  values is neither \<open>63 / 1000\<close> nor 21 times the exact product of the stored speed and
  the stored constant.
\<close>

theorem auto_rotate_closed_form_fails:
  "autoRotate (settings init) \<and> \<not> isDragging init
   \<and> prismGroup_rotation_y init = Num (884279719003555 / 1125899906842624)
   \<and> autoRotateSpeed (settings init) = lit 0.3
   \<and> prismGroup_rotation_y ((animate ^^ 21) init) = Num (7641691305077123 / 9007199254740992)
   \<and> prismGroup_rotation_y ((animate ^^ 21) init) \<noteq>
       jadd (prismGroup_rotation_y init) (jmul (jmul (lit 21) (autoRotateSpeed (settings init))) (lit 0.01))
   \<and> prismGroup_rotation_y ((animate ^^ 21) init) \<noteq>
       jadd (prismGroup_rotation_y init) (jmul (lit 21) (jmul (autoRotateSpeed (settings init)) (lit 0.01)))
   \<and> jsub (prismGroup_rotation_y ((animate ^^ 21) init)) (prismGroup_rotation_y init) \<noteq>
       jmul (jmul (lit 21) (autoRotateSpeed (settings init))) (lit 0.01)
   \<and> (7641691305077123 / 9007199254740992) - (884279719003555 / 1125899906842624) \<noteq> (21 * (3 / 10) * (1 / 100) :: rat)
   \<and> (7641691305077123 / 9007199254740992) - (884279719003555 / 1125899906842624) \<noteq>
       (21 * (5404319552844595 / 18014398509481984) * (5764607523034235 / 576460752303423488) :: rat)"
  by (simp add: frames_21_init jsub_def)

text \<open>
  C5, amended. With auto-rotate on, speed \<open>s\<close> and no drag, one animation frame sets the
  rotation about Y to \<^verbatim>\<open>rotationY + s * 0.01\<close>, a rounded product and a rounded sum, and \<open>n\<close>
  frames apply that rounded addition \<open>n\<close> times in sequence. The rotations about X and Z
  are the same after any number of frames. While a drag is in progress no number of
  frames changes the rotation about Y, whatever the speed.
\<close>

theorem auto_rotate_frames:
  "(autoRotate (settings s) \<and> \<not> isDragging s \<longrightarrow>
      prismGroup_rotation_y (animate s) =
        jadd (prismGroup_rotation_y s) (jmul (autoRotateSpeed (settings s)) (lit 0.01))
      \<and> prismGroup_rotation_y ((animate ^^ n) s) =
        ((\<lambda>r. jadd r (jmul (autoRotateSpeed (settings s)) (lit 0.01))) ^^ n) (prismGroup_rotation_y s))
   \<and> prismGroup_rotation_x ((animate ^^ n) s) = prismGroup_rotation_x s
   \<and> prismGroup_rotation_z ((animate ^^ n) s) = prismGroup_rotation_z s
   \<and> (isDragging s \<longrightarrow> prismGroup_rotation_y ((animate ^^ n) s) = prismGroup_rotation_y s)"
  by (simp add: animate_rotation_y frames_rotation_y frames_frame)

theorem auto_rotate_frames_witness:
  "autoRotate (settings init) \<and> \<not> isDragging init
   \<and> prismGroup_rotation_y (animate init) = Num (7101259349792663 / 9007199254740992)
   \<and> prismGroup_rotation_y ((animate ^^ 2) init) = Num (3564140473778443 / 4503599627370496)
   \<and> prismGroup_rotation_x ((animate ^^ 2) init) = prismGroup_rotation_x init
   \<and> prismGroup_rotation_z ((animate ^^ 2) init) = prismGroup_rotation_z init
   \<and> isDragging (mousedown (lit 100) (lit 100) init)
   \<and> prismGroup_rotation_y ((animate ^^ 2) (mousedown (lit 100) (lit 100) init)) = Num (884279719003555 / 1125899906842624)"
  using auto_rotate_frames[of init 2] auto_rotate_frames[of "mousedown (lit 100) (lit 100) init" 2]
  by (simp add: eval_nat_numeral mousedown_def)

text \<open>
  C6. A drag starts with pointer-down at \<open>(x0, y0)\<close>. After any further events among which
  there is no \<^verbatim>\<open>mouseup\<close> and no \<^verbatim>\<open>mouseleave\<close> (moves, animation frames, controller
  changes, in any number and order) the drag is still in progress and the previous pointer
  position is that of the last move or down event. The next move to \<open>(x, y)\<close> then performs
  \<^verbatim>\<open>rotation.y += (x - px) * 0.005\<close> and \<^verbatim>\<open>rotation.x += (y - py) * 0.005\<close>, where \<open>(px, py)\<close>
  is that position, leaves the rotation about Z alone, and becomes the previous position
  itself. In particular a move to \<open>(x1, y1)\<close> right after the pointer-down uses the
  differences to \<open>(x0, y0)\<close>, and a move to \<open>(x2, y2)\<close> right after that one the
  differences to \<open>(x1, y1)\<close>. With pointer-down at \<open>(100, 100)\<close> and a move to \<open>(110, 115)\<close>
  the two updates are \<^verbatim>\<open>rotation.y += 0.05\<close> and \<^verbatim>\<open>rotation.x += 0.075\<close>, from every state:
  \<^verbatim>\<open>10 * 0.005\<close> is the Number \<^verbatim>\<open>0.05\<close> and \<^verbatim>\<open>15 * 0.005\<close> is the Number \<^verbatim>\<open>0.075\<close>.
\<close>

theorem drag_rotates_by_pointer_delta:
  assumes "MouseUp \<notin> set evs" and "MouseLeave \<notin> set evs"
  shows "isDragging (run (mousedown x0 y0 s) evs)
   \<and> previousMousePosition (run (mousedown x0 y0 s) evs) = lastPointerPosition (x0, y0) evs
   \<and> prismGroup_rotation_y (mousemove x y (run (mousedown x0 y0 s) evs)) =
      jadd (prismGroup_rotation_y (run (mousedown x0 y0 s) evs))
        (jmul (jsub x (fst (lastPointerPosition (x0, y0) evs))) (lit 0.005))
   \<and> prismGroup_rotation_x (mousemove x y (run (mousedown x0 y0 s) evs)) =
      jadd (prismGroup_rotation_x (run (mousedown x0 y0 s) evs))
        (jmul (jsub y (snd (lastPointerPosition (x0, y0) evs))) (lit 0.005))
   \<and> prismGroup_rotation_z (mousemove x y (run (mousedown x0 y0 s) evs)) =
      prismGroup_rotation_z (run (mousedown x0 y0 s) evs)
   \<and> previousMousePosition (mousemove x y (run (mousedown x0 y0 s) evs)) = (x, y)
   \<and> prismGroup_rotation_y (mousemove x1 y1 (mousedown x0 y0 s)) =
      jadd (prismGroup_rotation_y s) (jmul (jsub x1 x0) (lit 0.005))
   \<and> prismGroup_rotation_x (mousemove x1 y1 (mousedown x0 y0 s)) =
      jadd (prismGroup_rotation_x s) (jmul (jsub y1 y0) (lit 0.005))
   \<and> prismGroup_rotation_y (mousemove x2 y2 (mousemove x1 y1 (mousedown x0 y0 s))) =
      jadd (prismGroup_rotation_y (mousemove x1 y1 (mousedown x0 y0 s))) (jmul (jsub x2 x1) (lit 0.005))
   \<and> prismGroup_rotation_x (mousemove x2 y2 (mousemove x1 y1 (mousedown x0 y0 s))) =
      jadd (prismGroup_rotation_x (mousemove x1 y1 (mousedown x0 y0 s))) (jmul (jsub y2 y1) (lit 0.005))
   \<and> prismGroup_rotation_y (mousemove (lit 110) (lit 115) (mousedown (lit 100) (lit 100) s)) =
      jadd (prismGroup_rotation_y s) (lit 0.05)
   \<and> prismGroup_rotation_x (mousemove (lit 110) (lit 115) (mousedown (lit 100) (lit 100) s)) =
      jadd (prismGroup_rotation_x s) (lit 0.075)"
proof -
  have d0: "isDragging (mousedown x0 y0 s)" by (simp add: mousedown_sel)
  from dragging_run[OF d0 assms]
  have d: "isDragging (run (mousedown x0 y0 s) evs)"
    and p: "previousMousePosition (run (mousedown x0 y0 s) evs) = lastPointerPosition (x0, y0) evs"
    by (simp_all add: mousedown_sel)
  have general: "isDragging (run (mousedown x0 y0 s) evs)
   \<and> previousMousePosition (run (mousedown x0 y0 s) evs) = lastPointerPosition (x0, y0) evs
   \<and> prismGroup_rotation_y (mousemove x y (run (mousedown x0 y0 s) evs)) =
      jadd (prismGroup_rotation_y (run (mousedown x0 y0 s) evs))
        (jmul (jsub x (fst (lastPointerPosition (x0, y0) evs))) (lit 0.005))
   \<and> prismGroup_rotation_x (mousemove x y (run (mousedown x0 y0 s) evs)) =
      jadd (prismGroup_rotation_x (run (mousedown x0 y0 s) evs))
        (jmul (jsub y (snd (lastPointerPosition (x0, y0) evs))) (lit 0.005))
   \<and> prismGroup_rotation_z (mousemove x y (run (mousedown x0 y0 s) evs)) =
      prismGroup_rotation_z (run (mousedown x0 y0 s) evs)
   \<and> previousMousePosition (mousemove x y (run (mousedown x0 y0 s) evs)) = (x, y)"
    using d p by (simp add: mousemove_dragging[OF d])
  have direct: "prismGroup_rotation_y (mousemove x1 y1 (mousedown x0 y0 s)) =
      jadd (prismGroup_rotation_y s) (jmul (jsub x1 x0) (lit 0.005))
   \<and> prismGroup_rotation_x (mousemove x1 y1 (mousedown x0 y0 s)) =
      jadd (prismGroup_rotation_x s) (jmul (jsub y1 y0) (lit 0.005))
   \<and> prismGroup_rotation_y (mousemove x2 y2 (mousemove x1 y1 (mousedown x0 y0 s))) =
      jadd (prismGroup_rotation_y (mousemove x1 y1 (mousedown x0 y0 s))) (jmul (jsub x2 x1) (lit 0.005))
   \<and> prismGroup_rotation_x (mousemove x2 y2 (mousemove x1 y1 (mousedown x0 y0 s))) =
      jadd (prismGroup_rotation_x (mousemove x1 y1 (mousedown x0 y0 s))) (jmul (jsub y2 y1) (lit 0.005))
   \<and> prismGroup_rotation_y (mousemove (lit 110) (lit 115) (mousedown (lit 100) (lit 100) s)) =
      jadd (prismGroup_rotation_y s) (lit 0.05)
   \<and> prismGroup_rotation_x (mousemove (lit 110) (lit 115) (mousedown (lit 100) (lit 100) s)) =
      jadd (prismGroup_rotation_x s) (lit 0.075)"
    by (simp add: mousemove_dragging mousedown_sel jsub_def)
  from general direct show ?thesis by (intro conjI) (elim conjE; assumption)+
qed

theorem drag_rotates_by_pointer_delta_witness:
  "MouseUp \<notin> set [AnimationFrame, MouseMove (lit 110) (lit 115), ChangeRotateZ (lit 1), AnimationFrame]
   \<and> MouseLeave \<notin> set [AnimationFrame, MouseMove (lit 110) (lit 115), ChangeRotateZ (lit 1), AnimationFrame]
   \<and> previousMousePosition (run (mousedown (lit 100) (lit 100) init)
        [AnimationFrame, MouseMove (lit 110) (lit 115), ChangeRotateZ (lit 1), AnimationFrame]) = (Num 110, Num 115)
   \<and> prismGroup_rotation_y (mousemove (lit 120) (lit 130) (run (mousedown (lit 100) (lit 100) init)
        [AnimationFrame, MouseMove (lit 110) (lit 115), ChangeRotateZ (lit 1), AnimationFrame])) =
      jadd (prismGroup_rotation_y (run (mousedown (lit 100) (lit 100) init)
        [AnimationFrame, MouseMove (lit 110) (lit 115), ChangeRotateZ (lit 1), AnimationFrame])) (lit 0.05)
   \<and> prismGroup_rotation_x (mousemove (lit 120) (lit 130) (run (mousedown (lit 100) (lit 100) init)
        [AnimationFrame, MouseMove (lit 110) (lit 115), ChangeRotateZ (lit 1), AnimationFrame])) =
      jadd (prismGroup_rotation_x (run (mousedown (lit 100) (lit 100) init)
        [AnimationFrame, MouseMove (lit 110) (lit 115), ChangeRotateZ (lit 1), AnimationFrame])) (lit 0.075)"
  using drag_rotates_by_pointer_delta[of
      "[AnimationFrame, MouseMove (lit 110) (lit 115), ChangeRotateZ (lit 1), AnimationFrame]"
      "lit 100" "lit 100" init "lit 120" "lit 130"]
  by (simp add: jsub_def)

text \<open>
  C7. After \<^verbatim>\<open>mouseup\<close> or \<^verbatim>\<open>mouseleave\<close>, and after any further events among which there is
  no \<^verbatim>\<open>mousedown\<close>, a \<^verbatim>\<open>mousemove\<close> leaves the whole state as it is, the three rotation
  components of the prism group in particular.
\<close>

theorem no_rotation_after_release:
  assumes "r = MouseUp \<or> r = MouseLeave" and "\<forall>x y. MouseDown x y \<notin> set evs"
  shows "handle (MouseMove x y) (run (handle r s) evs) = run (handle r s) evs
    \<and> prismGroup_rotation_x (handle (MouseMove x y) (run (handle r s) evs)) = prismGroup_rotation_x (run (handle r s) evs)
    \<and> prismGroup_rotation_y (handle (MouseMove x y) (run (handle r s) evs)) = prismGroup_rotation_y (run (handle r s) evs)
    \<and> prismGroup_rotation_z (handle (MouseMove x y) (run (handle r s) evs)) = prismGroup_rotation_z (run (handle r s) evs)"
proof -
  have "\<not> isDragging (handle r s)" using assms(1) by (auto simp add: mouseup_def mouseleave_def)
  then have "\<not> isDragging (run (handle r s) evs)" using assms(2) by (rule not_dragging_run)
  then have "handle (MouseMove x y) (run (handle r s) evs) = run (handle r s) evs"
    by (simp add: mousemove_idle)
  then show ?thesis by simp
qed

theorem no_rotation_after_release_witness:
  "(MouseUp = MouseUp \<or> MouseUp = MouseLeave)
   \<and> (\<forall>x y. MouseDown x y \<notin> set [AnimationFrame, MouseMove (lit 110) (lit 115)])
   \<and> prismGroup_rotation_y (handle (MouseMove (lit 115) (lit 110))
        (run (handle MouseUp (mousedown (lit 100) (lit 100) init)) [AnimationFrame, MouseMove (lit 110) (lit 115)]))
      = Num (7101259349792663 / 9007199254740992)
   \<and> prismGroup_rotation_x (handle (MouseMove (lit 115) (lit 110))
        (run (handle MouseUp (mousedown (lit 100) (lit 100) init)) [AnimationFrame, MouseMove (lit 110) (lit 115)]))
      = Num (4716158501352293 / 9007199254740992)"
  using no_rotation_after_release[of MouseUp "[AnimationFrame, MouseMove (lit 110) (lit 115)]" "lit 115" "lit 110"
      "mousedown (lit 100) (lit 100) init"]
  by (simp add: mouseup_sel mousedown_sel mousemove_idle animate_rotation_y animate_frame)

text \<open>
  C8. In every state reached from the initial one, the single pyramid and the two halves of
  the bi-pyramid hold the same material address, that of the glass material. After the
  dispersion controller has written \<open>d\<close>, whichever name \<open>setActiveShape\<close> is then called
  with, the three meshes are drawn with one and the same material object, whose dispersion
  is \<open>d\<close>.
\<close>

theorem solids_drawn_with_one_material:
  "material (singlePyramid (run init evs)) = material (upperPyramid (run init evs))
   \<and> material (upperPyramid (run init evs)) = material (lowerPyramid (run init evs))
   \<and> material (lowerPyramid (run init evs)) = glassMaterial
   \<and> (\<exists>m. dispersion m = d
        \<and> material_of (setActiveShape n (change_dispersion d (run init evs)))
             (singlePyramid (setActiveShape n (change_dispersion d (run init evs)))) = Some m
        \<and> material_of (setActiveShape n (change_dispersion d (run init evs)))
             (upperPyramid (setActiveShape n (change_dispersion d (run init evs)))) = Some m
        \<and> material_of (setActiveShape n (change_dispersion d (run init evs)))
             (lowerPyramid (setActiveShape n (change_dispersion d (run init evs)))) = Some m)"
proof -
  have inv: "solids_share_glass (run init evs)"
    using solids_share_glass_init by (rule solids_share_glass_run)
  then obtain m where m: "materials (run init evs) glassMaterial = Some m"
    by (auto simp add: solids_share_glass_def)
  show ?thesis
    using inv m
    by (auto simp add: solids_share_glass_def material_of_def setActiveShape_def change_dispersion_def Let_def
        intro!: exI[of _ "m\<lparr>dispersion := d\<rparr>"])
qed

text \<open>
  C9. For every string other than the two names, \<open>setActiveShape\<close> hides both groups; so
  exactly one group is visible after the call if and only if the argument is one of the
  two names.
\<close>

theorem setActiveShape_other_name_hides_both:
  "(n \<noteq> ''Single Pyramid'' \<and> n \<noteq> ''Bi-Pyramid'' \<longrightarrow>
      \<not> singlePyramidGroup_visible (setActiveShape n s) \<and> \<not> biPyramidGroup_visible (setActiveShape n s))
   \<and> ((singlePyramidGroup_visible (setActiveShape n s) \<noteq> biPyramidGroup_visible (setActiveShape n s))
        = (n = ''Single Pyramid'' \<or> n = ''Bi-Pyramid''))"
  by (auto simp add: setActiveShape_def)

theorem setActiveShape_other_name_hides_both_witness:
  "''Cube'' \<noteq> ''Single Pyramid'' \<and> ''Cube'' \<noteq> ''Bi-Pyramid''
   \<and> \<not> singlePyramidGroup_visible (setActiveShape ''Cube'' init)
   \<and> \<not> biPyramidGroup_visible (setActiveShape ''Cube'' init)"
  using setActiveShape_other_name_hides_both[of "''Cube''" init] by simp

text \<open>
  C10. \<open>updateBiPyramidGap\<close> does not clamp: for every Number \<open>g\<close>, in range or not, the gap
  variable becomes \<open>g\<close> itself, the upper offset is \<^verbatim>\<open>biPyramidHeight / 2 + g / 2\<close>, and the lower
  offset is the negation of that value, hence of the upper offset.
\<close>

theorem updateBiPyramidGap_symmetric_for_every_gap:
  "position_y (lowerPyramid (updateBiPyramidGap g s)) = jneg (position_y (upperPyramid (updateBiPyramidGap g s)))
   \<and> position_y (upperPyramid (updateBiPyramidGap g s)) = jadd (jdiv biPyramidHeight (lit 2)) (jdiv g (lit 2))
   \<and> position_y (lowerPyramid (updateBiPyramidGap g s)) = jneg (jadd (jdiv biPyramidHeight (lit 2)) (jdiv g (lit 2)))
   \<and> let_biPyramidGap (updateBiPyramidGap g s) = g"
  by (simp add: updateBiPyramidGap_def)

end
